theory Spec2Isabelle
  imports Complex_Main
begin

section \<open>Geofence manager (src/geofence/geofence_manager.py)\<close>

text \<open>
  Python floats are read as real numbers. A shapely \<open>Point(x, y)\<close> is a pair; the code
  always builds it as \<open>Point(longitude, latitude)\<close>, so the first component is the
  longitude and the second the latitude.
\<close>

type_synonym point = "real \<times> real"

text \<open>
  The shapely geometry stored under \<open>boundary['geometry']\<close> is used by the manager
  through two operations only: \<open>geometry.contains(point)\<close> and
  \<open>nearest_points(point, geometry)[1]\<close>. The library is not part of the repository, so
  a geometry is the pair of these two operations.
\<close>

record geometry =
  contains :: "point \<Rightarrow> bool"
  nearest_point :: "point \<Rightarrow> point"

text \<open>
  A boundary dictionary is built in two places only: \<open>_add_boundary\<close> (type
  \<open>'polygon'\<close>: keys type, geometry, name) and \<open>_create_circular_boundary\<close> (type
  \<open>'circle'\<close>: keys type, geometry, name, center, radius). The center is stored as
  \<open>(center_lat, center_lon)\<close>, the radius in meters.
\<close>

datatype boundary =
  Polygon_boundary geometry string
| Circle_boundary geometry string "real \<times> real" real

fun boundary_geometry :: "boundary \<Rightarrow> geometry" where
  "boundary_geometry (Polygon_boundary g n) = g"
| "boundary_geometry (Circle_boundary g n c r) = g"

record GeofenceManager =
  boundaries :: "boundary list"
  max_altitude :: real
  min_altitude :: real
  buffer_distance :: real

text \<open>\<open>_meters_to_degrees\<close>: the latitude argument is clamped and then not used.\<close>

definition meters_to_degrees :: "real \<Rightarrow> real" where
  "meters_to_degrees meters = meters / 111111"

text \<open>\<open>Point.distance(Point)\<close>: the Euclidean distance of the plane.\<close>

definition distance :: "point \<Rightarrow> point \<Rightarrow> real" where
  "distance p q = sqrt ((fst p - fst q)\<^sup>2 + (snd p - snd q)\<^sup>2)"

text \<open>
  \<open>LineString([a, b])\<close> of two points: its \<open>length\<close> is the distance of the end
  points, and \<open>interpolate(d)\<close> is the point at distance \<open>d\<close> from \<open>a\<close> along the
  segment; a negative \<open>d\<close> is measured back from \<open>b\<close>, and the position is clamped
  into the segment.
\<close>

definition line_length :: "point \<Rightarrow> point \<Rightarrow> real" where
  "line_length a b = distance a b"

definition interpolate :: "point \<Rightarrow> point \<Rightarrow> real \<Rightarrow> point" where
  "interpolate a b d =
     (let l = line_length a b;
          pos = (if d < 0 then max 0 (l + d) else min d l)
      in if l = 0 then a
         else (fst a + (pos / l) * (fst b - fst a), snd a + (pos / l) * (snd b - snd a)))"

text \<open>
  The loop \<open>for boundary in self.boundaries: if boundary['geometry'].contains(point):
  return ...\<close>, which opens \<open>is_point_inside\<close>, \<open>get_nearest_safe_point\<close> and
  \<open>calculate_breach_distance\<close> alike: does some boundary contain the point?
\<close>

fun contains_loop :: "boundary list \<Rightarrow> point \<Rightarrow> bool" where
  "contains_loop [] p = False"
| "contains_loop (b # bs) p =
     (if contains (boundary_geometry b) p then True else contains_loop bs p)"

text \<open>\<open>is_point_inside(latitude, longitude, altitude=None)\<close>.\<close>

definition is_point_inside :: "GeofenceManager \<Rightarrow> real \<Rightarrow> real \<Rightarrow> real option \<Rightarrow> bool" where
  "is_point_inside gm latitude longitude altitude =
     (case altitude of
        Some a \<Rightarrow>
          if a > max_altitude gm \<or> a < min_altitude gm then False
          else contains_loop (boundaries gm) (longitude, latitude)
      | None \<Rightarrow> contains_loop (boundaries gm) (longitude, latitude))"

text \<open>
  A float that may be \<open>float('inf')\<close>: the initial value of \<open>min_distance\<close>.
\<close>

datatype float_inf = Fin real | PosInf

fun less_inf :: "real \<Rightarrow> float_inf \<Rightarrow> bool" where
  "less_inf d PosInf = True"
| "less_inf d (Fin m) = (d < m)"

text \<open>
  One pass of the second loop of \<open>get_nearest_safe_point\<close>. The state is
  \<open>(min_distance, nearest_boundary, nearest_safe_point)\<close>, the last two \<open>None\<close>
  before the first assignment.
\<close>

type_synonym nearest_state = "float_inf \<times> boundary option \<times> point option"

definition nearest_step :: "point \<Rightarrow> nearest_state \<Rightarrow> boundary \<Rightarrow> nearest_state" where
  "nearest_step p st b =
     (let nearest_point_on_boundary = nearest_point (boundary_geometry b) p;
          d = distance p nearest_point_on_boundary
      in if less_inf d (fst st) then (Fin d, Some b, Some nearest_point_on_boundary)
         else st)"

definition nearest_loop :: "point \<Rightarrow> boundary list \<Rightarrow> nearest_state" where
  "nearest_loop p bs = foldl (nearest_step p) (PosInf, None, None) bs"

text \<open>
  \<open>get_nearest_safe_point(latitude, longitude)\<close>; the result is the tuple
  \<open>(latitude, longitude)\<close>. A shapely point is truthy unless empty, so
  \<open>if nearest_safe_point:\<close> asks whether the loop assigned one.
\<close>

definition get_nearest_safe_point :: "GeofenceManager \<Rightarrow> real \<Rightarrow> real \<Rightarrow> real \<times> real" where
  "get_nearest_safe_point gm latitude longitude =
     (let p = (longitude, latitude) in
      if contains_loop (boundaries gm) p then (latitude, longitude)
      else
        (case nearest_loop p (boundaries gm) of
           (min_distance, Some nearest_boundary, Some nearest_safe_point) \<Rightarrow>
             (case nearest_boundary of
                Circle_boundary g n c r \<Rightarrow>
                  (let center_point = (snd c, fst c);
                       buffer_degrees = meters_to_degrees (buffer_distance gm)
                   in if line_length nearest_safe_point center_point > buffer_degrees
                      then (let safe_point = interpolate nearest_safe_point center_point buffer_degrees
                            in (snd safe_point, fst safe_point))
                      else (snd nearest_safe_point, fst nearest_safe_point))
              | Polygon_boundary g n \<Rightarrow> (snd nearest_safe_point, fst nearest_safe_point))
         | _ \<Rightarrow> (latitude, longitude)))"

text \<open>
  The second loop of \<open>calculate_breach_distance\<close> keeps the minimum only.
\<close>

definition breach_step :: "point \<Rightarrow> float_inf \<Rightarrow> boundary \<Rightarrow> float_inf" where
  "breach_step p min_distance_degrees b =
     (let nearest = nearest_point (boundary_geometry b) p;
          distance_degrees = distance p nearest
      in if less_inf distance_degrees min_distance_degrees then Fin distance_degrees
         else min_distance_degrees)"

fun times_inf :: "float_inf \<Rightarrow> real \<Rightarrow> float_inf" where
  "times_inf (Fin d) k = Fin (d * k)"
| "times_inf PosInf k = PosInf"

text \<open>
  \<open>calculate_breach_distance(latitude, longitude)\<close>. With no boundary the loop leaves
  \<open>float('inf')\<close>, and \<open>inf * 111111.0\<close> is \<open>inf\<close>.
\<close>

definition calculate_breach_distance :: "GeofenceManager \<Rightarrow> real \<Rightarrow> real \<Rightarrow> float_inf" where
  "calculate_breach_distance gm latitude longitude =
     (let p = (longitude, latitude) in
      if contains_loop (boundaries gm) p then Fin 0
      else times_inf (foldl (breach_step p) PosInf (boundaries gm)) 111111)"

text \<open>
  Two concrete geometries for closed examples. The axis-parallel rectangle is what
  \<open>Polygon([(x0, y0), (x1, y0), (x1, y1), (x0, y1), (x0, y0)])\<close> denotes: shapely's
  \<open>contains\<close> holds for the interior only (a point of the ring is not contained), and
  the nearest point of the closed rectangle is found by clamping each coordinate.
\<close>

definition rectangle :: "real \<Rightarrow> real \<Rightarrow> real \<Rightarrow> real \<Rightarrow> geometry" where
  "rectangle x0 y0 x1 y1 =
     \<lparr> contains = (\<lambda>p. x0 < fst p \<and> fst p < x1 \<and> y0 < snd p \<and> snd p < y1),
       nearest_point = (\<lambda>p. (max x0 (min x1 (fst p)), max y0 (min y1 (snd p)))) \<rparr>"

text \<open>
  The disc of radius \<open>r\<close> around \<open>c\<close> stands for \<open>Point(c).buffer(r)\<close>, which shapely
  approximates by a polygon inscribed in that circle with vertices on the four axis
  directions; the examples below query it along an axis only, where both agree.
\<close>

definition disc :: "point \<Rightarrow> real \<Rightarrow> geometry" where
  "disc c r =
     \<lparr> contains = (\<lambda>p. distance p c < r),
       nearest_point = (\<lambda>p. if distance p c \<le> r then p
                          else (fst c + (r / distance p c) * (fst p - fst c),
                                snd c + (r / distance p c) * (snd p - snd c))) \<rparr>"

section \<open>Drone controller (src/drone_control/drone_controller.py)\<close>

datatype DroneStatus = DISCONNECTED | CONNECTED | ARMED | FLYING | RETURNING | LANDING | ERROR

text \<open>A Python \<open>Exception\<close> instance, with its message \<open>str(e)\<close>.\<close>

datatype exn = Exception string

text \<open>
  What the controller writes to the dronekit vehicle in the methods modelled here:
  \<open>vehicle.airspeed = a\<close>, \<open>vehicle.mode = VehicleMode(m)\<close> and
  \<open>vehicle.simple_goto(LocationGlobalRelative(lat, lon, alt))\<close>.
\<close>

datatype link_cmd = SetAirspeed real | SetMode string | SimpleGoto real real real

text \<open>
  The dronekit vehicle is the flight link, outside the repository. Reading one of its
  attributes gives a value or raises; a write is accepted, and then recorded in
  \<open>sent\<close>, or raises. \<open>location\<close> is \<open>vehicle.location.global_relative_frame\<close> as
  \<open>(lat, lon, alt)\<close>.
\<close>

record Vehicle =
  mode_name :: "exn + string"
  armed :: "exn + bool"
  commands_next :: "exn + int"
  battery_level :: "exn + real option"
  location :: "exn + real \<times> real \<times> real"
  write_raises :: "link_cmd \<Rightarrow> bool"
  sent :: "link_cmd list"

text \<open>
  The other effects of the methods, in the order they happen: the calls of the logger,
  \<open>time.sleep(s)\<close> and \<open>threading.Timer(s, self._simulated_landing_complete).start()\<close>.
\<close>

datatype event = Log_info string | Log_warning string | Log_error string | Sleep real | Timer real

text \<open>
  The fields of \<open>DroneController\<close> that the modelled methods use.
  \<open>critical_battery_level\<close> and \<open>low_battery_level\<close> are
  \<open>self.config.get('critical_battery_level', 15)\<close> and
  \<open>self.config.get('low_battery_level', 30)\<close>; \<open>drone_max_altitude\<close> is the
  controller's own \<open>self.max_altitude\<close>.
\<close>

record DroneController =
  simulation_mode :: bool
  geofence_manager :: "GeofenceManager option"
  drone_max_altitude :: real
  return_airspeed :: real
  critical_battery_level :: real
  low_battery_level :: real
  status :: DroneStatus
  vehicle :: "Vehicle option"
  current_mission :: "string option"
  current_waypoint_index :: int
  trace :: "event list"

definition emit :: "event \<Rightarrow> DroneController \<Rightarrow> DroneController" where
  "emit e c = c\<lparr>trace := trace c @ [e]\<rparr>"

text \<open>\<open>return_to_home()\<close>. Both writes are inside the \<open>try\<close>.\<close>

definition return_to_home :: "DroneController \<Rightarrow> bool \<times> DroneController" where
  "return_to_home c =
     (if simulation_mode c then
        (True, emit (Timer 10)
                 ((emit (Log_info ''SIMULATION: Returning to home location'') c)\<lparr>status := RETURNING\<rparr>))
      else
        (case vehicle c of
           None \<Rightarrow> (False, emit (Log_error ''Cannot return home: Not connected to drone'') c)
         | Some v \<Rightarrow>
             if status c \<noteq> FLYING
             then (False, emit (Log_warning ''Drone is not flying, cannot return home'') c)
             else if write_raises v (SetAirspeed (return_airspeed c))
             then (False, emit (Log_error ''Return to home failed'') c)
             else
               (let v1 = v\<lparr>sent := sent v @ [SetAirspeed (return_airspeed c)]\<rparr>;
                    c1 = emit (Log_info ''Returning to home location'') (c\<lparr>vehicle := Some v1\<rparr>)
                in if write_raises v1 (SetMode ''RTL'')
                   then (False, emit (Log_error ''Return to home failed'') c1)
                   else (True, c1\<lparr>vehicle := Some (v1\<lparr>sent := sent v1 @ [SetMode ''RTL'']\<rparr>),
                                   status := RETURNING\<rparr>))))"

text \<open>The \<open>location\<close> dictionary: \<open>location.get('latitude')\<close>, \<open>location.get('longitude')\<close>.\<close>

record coords =
  latitude :: "real option"
  longitude :: "real option"

text \<open>
  The geofence check of \<open>move_to_coordinates\<close>: the coordinates to fly to, replaced by
  the nearest safe point when a geofence manager is set and reports them outside.
\<close>

definition geofence_target ::
    "DroneController \<Rightarrow> real \<Rightarrow> real \<Rightarrow> (real \<times> real) \<times> DroneController" where
  "geofence_target c lat lon =
     (case geofence_manager c of
        None \<Rightarrow> ((lat, lon), c)
      | Some gm \<Rightarrow>
          if \<not> is_point_inside gm lat lon None
          then (get_nearest_safe_point gm lat lon,
                emit (Log_warning ''Coordinates are outside geofence'') c)
          else ((lat, lon), c))"

text \<open>The \<open>try\<close> block that ends \<open>move_to_coordinates\<close>.\<close>

definition send_goto ::
    "DroneController \<Rightarrow> Vehicle \<Rightarrow> real \<Rightarrow> real \<Rightarrow> real \<Rightarrow> (exn + bool) \<times> DroneController" where
  "send_goto c v lat lon alt =
     (let c1 = emit (Log_info ''Moving to'') c in
      if write_raises v (SimpleGoto lat lon alt)
      then (Inr False, emit (Log_error ''Move to coordinates failed'') c1)
      else (Inr True, c1\<lparr>vehicle := Some (v\<lparr>sent := sent v @ [SimpleGoto lat lon alt]\<rparr>)\<rparr>))"

text \<open>
  \<open>move_to_coordinates(location, altitude=None)\<close>. The result is the returned bool, or
  the exception that leaves the method: reading the current altitude is outside the
  \<open>try\<close>.
\<close>

definition move_to_coordinates ::
    "DroneController \<Rightarrow> coords \<Rightarrow> real option \<Rightarrow> (exn + bool) \<times> DroneController" where
  "move_to_coordinates c loc altitude =
     (if simulation_mode c then (Inr True, emit (Log_info ''SIMULATION: Moving to'') c)
      else
        (case vehicle c of
           None \<Rightarrow> (Inr False, emit (Log_error ''Cannot move: Not connected to drone'') c)
         | Some v \<Rightarrow>
             if status c \<noteq> FLYING
             then (Inr False, emit (Log_warning ''Drone is not flying, cannot move'') c)
             else
               (case (latitude loc, longitude loc) of
                  (Some lat0, Some lon0) \<Rightarrow>
                    (let (target, c1) = geofence_target c lat0 lon0
                     in case altitude of
                          None \<Rightarrow>
                            (case location v of
                               Inl e \<Rightarrow> (Inl e, c1)
                             | Inr (vlat, vlon, valt) \<Rightarrow>
                                 send_goto c1 v (fst target) (snd target) valt)
                        | Some a \<Rightarrow>
                            if a > drone_max_altitude c
                            then send_goto (emit (Log_warning ''Requested altitude exceeds maximum'') c1)
                                   v (fst target) (snd target) (drone_max_altitude c)
                            else send_goto c1 v (fst target) (snd target) a)
                | _ \<Rightarrow> (Inr False, emit (Log_error ''Cannot move: Invalid coordinates'') c))))"

text \<open>
  One pass through the body of the \<open>try\<close> in \<open>_monitor_drone\<close>, in five parts and the
  closing \<open>time.sleep(1)\<close>. A part returns the exception it raised, if any, with the
  controller as the part left it: what was assigned before the exception stays assigned.
\<close>

type_synonym outcome = "exn option \<times> DroneController"

definition and_then :: "outcome \<Rightarrow> (DroneController \<Rightarrow> outcome) \<Rightarrow> outcome" where
  "and_then r f = (case r of (None, c) \<Rightarrow> f c | (Some e, c) \<Rightarrow> (Some e, c))"

definition no_vehicle :: exn where
  "no_vehicle = Exception ''AttributeError''"

definition check_mode :: "DroneController \<Rightarrow> outcome" where
  "check_mode c =
     (case vehicle c of
        None \<Rightarrow> (Some no_vehicle, c)
      | Some v \<Rightarrow>
          (case mode_name v of
             Inl e \<Rightarrow> (Some e, c)
           | Inr m \<Rightarrow>
               if m = ''LAND'' \<and> status c \<noteq> LANDING
               then (None, (emit (Log_info ''Detected LAND mode change'') c)\<lparr>status := LANDING\<rparr>)
               else if m = ''RTL'' \<and> status c \<noteq> RETURNING
               then (None, (emit (Log_info ''Detected RTL mode change'') c)\<lparr>status := RETURNING\<rparr>)
               else (None, c)))"

definition check_landed :: "DroneController \<Rightarrow> outcome" where
  "check_landed c =
     (if status c = LANDING then
        (case vehicle c of
           None \<Rightarrow> (Some no_vehicle, c)
         | Some v \<Rightarrow>
             (case armed v of
                Inl e \<Rightarrow> (Some e, c)
              | Inr a \<Rightarrow>
                  if \<not> a then (None, (emit (Log_info ''Drone has landed'') c)\<lparr>status := CONNECTED\<rparr>)
                  else (None, c)))
      else (None, c))"

text \<open>\<open>self.current_mission\<close> as a condition: neither \<open>None\<close> nor the empty string.\<close>

definition truthy :: "string option \<Rightarrow> bool" where
  "truthy m = (case m of None \<Rightarrow> False | Some s \<Rightarrow> s \<noteq> [])"

definition check_mission :: "DroneController \<Rightarrow> outcome" where
  "check_mission c =
     (case vehicle c of
        None \<Rightarrow> (Some no_vehicle, c)
      | Some v \<Rightarrow>
          (case mode_name v of
             Inl e \<Rightarrow> (Some e, c)
           | Inr m \<Rightarrow>
               if m = ''AUTO'' \<and> truthy (current_mission c) then
                 (case commands_next v of
                    Inl e \<Rightarrow> (Some e, c)
                  | Inr next_waypoint \<Rightarrow>
                      if next_waypoint \<noteq> current_waypoint_index c
                      then (None, emit (Log_info ''Moving to waypoint'')
                                    (c\<lparr>current_waypoint_index := next_waypoint\<rparr>))
                      else (None, c))
               else (None, c)))"

definition check_battery :: "DroneController \<Rightarrow> outcome" where
  "check_battery c =
     (case vehicle c of
        None \<Rightarrow> (Some no_vehicle, c)
      | Some v \<Rightarrow>
          (case battery_level v of
             Inl e \<Rightarrow> (Some e, c)
           | Inr None \<Rightarrow> (None, c)
           | Inr (Some lvl) \<Rightarrow>
               if lvl < critical_battery_level c
               then (None, snd (return_to_home (emit (Log_warning ''CRITICAL BATTERY LEVEL'') c)))
               else if lvl < low_battery_level c
               then (None, emit (Log_warning ''LOW BATTERY LEVEL'') c)
               else (None, c)))"

definition check_geofence :: "DroneController \<Rightarrow> outcome" where
  "check_geofence c =
     (case geofence_manager c of
        None \<Rightarrow> (None, c)
      | Some gm \<Rightarrow>
          if status c = FLYING then
            (case vehicle c of
               None \<Rightarrow> (Some no_vehicle, c)
             | Some v \<Rightarrow>
                 (case location v of
                    Inl e \<Rightarrow> (Some e, c)
                  | Inr (lat, lon, alt) \<Rightarrow>
                      if \<not> is_point_inside gm lat lon None then
                        (let c1 = emit (Log_warning ''GEOFENCE BREACH DETECTED'') c;
                             (safe_lat, safe_lon) = get_nearest_safe_point gm lat lon;
                             (r, c2) = move_to_coordinates c1
                                         \<lparr>latitude = Some safe_lat, longitude = Some safe_lon\<rparr> None
                         in case r of Inl e \<Rightarrow> (Some e, c2) | Inr ok \<Rightarrow> (None, c2))
                      else (None, c)))
          else (None, c))"

definition monitor_checks :: "DroneController \<Rightarrow> outcome" where
  "monitor_checks c =
     and_then (and_then (and_then (and_then (check_mode c)
       check_landed) check_mission) check_battery) check_geofence"

definition monitor_tick :: "DroneController \<Rightarrow> outcome" where
  "monitor_tick c = and_then (monitor_checks c) (\<lambda>c'. (None, emit (Sleep 1) c'))"

text \<open>
  The \<open>try\<close> statement: \<open>except Exception as e\<close> logs the error and sleeps five
  seconds. The statement itself raises only what its handler raises.
\<close>

definition monitor_iteration :: "DroneController \<Rightarrow> outcome" where
  "monitor_iteration c =
     (case monitor_tick c of
        (None, c') \<Rightarrow> (None, c')
      | (Some (Exception msg), c') \<Rightarrow>
          (None, emit (Sleep 5) (emit (Log_error (''Error in drone monitoring: '' @ msg)) c')))"

text \<open>
  \<open>_monitor_drone\<close>: \<open>while self.running and self.vehicle\<close>. The list is what the
  flight link shows in each iteration made while \<open>self.running\<close> holds (its readings
  and the writes it would refuse); the record of what was sent is carried over. The list
  ends where another thread clears \<open>self.running\<close>. An exception that leaves an
  iteration leaves the loop.
\<close>

definition observe :: "Vehicle \<Rightarrow> Vehicle \<Rightarrow> Vehicle" where
  "observe t v = t\<lparr>sent := sent v\<rparr>"

fun monitor_loop :: "Vehicle list \<Rightarrow> DroneController \<Rightarrow> outcome" where
  "monitor_loop [] c = (None, c)"
| "monitor_loop (t # ts) c =
     (case vehicle c of
        None \<Rightarrow> (None, c)
      | Some v \<Rightarrow>
          (case monitor_iteration (c\<lparr>vehicle := Some (observe t v)\<rparr>) of
             (None, c') \<Rightarrow> monitor_loop ts c'
           | (Some e, c') \<Rightarrow> (Some e, c')))"

definition monitor_drone :: "Vehicle list \<Rightarrow> DroneController \<Rightarrow> outcome" where
  "monitor_drone ts c =
     and_then (monitor_loop ts (emit (Log_info ''Starting drone monitoring thread'') c))
       (\<lambda>c'. (None, emit (Log_info ''Drone monitoring thread stopped'') c'))"

text \<open>How many times \<open>VehicleMode("RTL")\<close> has been written to the vehicle.\<close>

definition rtl_sent :: "DroneController \<Rightarrow> nat" where
  "rtl_sent c =
     (case vehicle c of None \<Rightarrow> 0 | Some v \<Rightarrow> length (filter (\<lambda>x. x = SetMode ''RTL'') (sent v)))"



text \<open>
  How many times the monitor has warned of a critical battery level. The warning is
  logged on the line before the monitor's call of \<open>self.return_to_home()\<close>, in the same
  branch, so this counts the calls the monitor has made.
\<close>

definition critical_calls :: "DroneController \<Rightarrow> nat" where
  "critical_calls c =
     length (filter (\<lambda>e. e = Log_warning ''CRITICAL BATTERY LEVEL'') (trace c))"


text \<open>
  What the three checks before the battery check leave as it was: the vehicle, the
  configuration they and the later checks read, and the number of calls made.
\<close>

definition same_setup :: "DroneController \<Rightarrow> DroneController \<Rightarrow> bool" where
  "same_setup c c' \<longleftrightarrow>
     vehicle c' = vehicle c \<and> simulation_mode c' = simulation_mode c \<and>
     geofence_manager c' = geofence_manager c \<and>
     critical_battery_level c' = critical_battery_level c \<and>
     return_airspeed c' = return_airspeed c \<and> current_mission c' = current_mission c \<and>
     critical_calls c' = critical_calls c"

section \<open>Notions of the specification\<close>

text \<open>
  The distance from a point to a boundary's geometry: the distance to the nearest point
  of the geometry.
\<close>

definition boundary_distance :: "point \<Rightarrow> boundary \<Rightarrow> real" where
  "boundary_distance p b = distance p (nearest_point (boundary_geometry b) p)"

text \<open>
  The boundary at index \<open>i\<close> is at minimum distance from \<open>p\<close>, and is the first such
  in insertion order.
\<close>

definition first_nearest :: "point \<Rightarrow> boundary list \<Rightarrow> nat \<Rightarrow> bool" where
  "first_nearest p bs i \<longleftrightarrow>
     i < length bs \<and>
     (\<forall>j < length bs. boundary_distance p (bs ! i) \<le> boundary_distance p (bs ! j)) \<and>
     (\<forall>j < i. boundary_distance p (bs ! i) < boundary_distance p (bs ! j))"

text \<open>The point at distance \<open>d\<close> from \<open>a\<close> on the ray from \<open>a\<close> through \<open>b\<close>.\<close>

definition toward :: "point \<Rightarrow> point \<Rightarrow> real \<Rightarrow> point" where
  "toward a b d =
     (fst a + d * (fst b - fst a) / distance a b, snd a + d * (snd b - snd a) / distance a b)"

text \<open>
  The nudge in the specification's words: move the boundary point \<open>n\<close> toward the
  center \<open>c\<close> by \<open>d\<close> unless that overshoots past the center, in which case return
  \<open>n\<close>.
\<close>

definition nudge_as_stated :: "real \<Rightarrow> point \<Rightarrow> point \<Rightarrow> point" where
  "nudge_as_stated d n c = (if d > distance n c then n else toward n c d)"






section \<open>Concrete configurations\<close>

text \<open>One square polygon; the altitude limits and buffer distance are the defaults.\<close>

definition square_gm :: GeofenceManager where
  "square_gm =
     \<lparr> boundaries = [Polygon_boundary (rectangle 0 0 1 1) ''Boundary_0''],
       max_altitude = 30, min_altitude = 2, buffer_distance = 5 \<rparr>"

definition union_gm :: GeofenceManager where
  "union_gm =
     \<lparr> boundaries = [Polygon_boundary (rectangle 0 0 1 1) ''A'',
                     Polygon_boundary (rectangle 2 0 3 1) ''B''],
       max_altitude = 30, min_altitude = 2, buffer_distance = 5 \<rparr>"

definition empty_gm :: GeofenceManager where
  "empty_gm = \<lparr> boundaries = [], max_altitude = 30, min_altitude = 2, buffer_distance = 5 \<rparr>"

text \<open>
  One circle around \<open>(0, 0)\<close> of radius 111111 m, which \<open>_meters_to_degrees\<close> turns
  into one degree, with the given buffer distance in meters.
\<close>

definition circle_gm :: "real \<Rightarrow> GeofenceManager" where
  "circle_gm buffer =
     \<lparr> boundaries = [Circle_boundary (disc (0, 0) 1) ''Circle_0'' (0, 0) 111111],
       max_altitude = 30, min_altitude = 2, buffer_distance = buffer \<rparr>"

text \<open>
  A flight link that answers every read and accepts every write, a link whose mode read
  raises, a link that refuses the write of mode RTL, and a controller as \<open>__init__\<close> leaves it but for the given mode, status and
  vehicle; its geofence is the square.
\<close>

definition link_ok :: "real \<Rightarrow> Vehicle" where
  "link_ok lvl =
     \<lparr> mode_name = Inr ''GUIDED'', armed = Inr True, commands_next = Inr 0,
       battery_level = Inr (Some lvl), location = Inr (1/2, 1/2, 10),
       write_raises = (\<lambda>w. False), sent = [] \<rparr>"



definition controller :: "bool \<Rightarrow> DroneStatus \<Rightarrow> Vehicle option \<Rightarrow> DroneController" where
  "controller sim st v =
     \<lparr> simulation_mode = sim, geofence_manager = Some square_gm, drone_max_altitude = 30,
       return_airspeed = 5, critical_battery_level = 15, low_battery_level = 30,
       status = st, vehicle = v, current_mission = None, current_waypoint_index = 0,
       trace = [] \<rparr>"

section \<open>Containment\<close>

lemma contains_loop_iff:
  "contains_loop bs p \<longleftrightarrow> (\<exists>b \<in> set bs. contains (boundary_geometry b) p)"
  by (induction bs) auto


section \<open>The two loops over the boundaries\<close>

lemma nearest_loop_snoc:
  "nearest_loop p (bs @ [b]) = nearest_step p (nearest_loop p bs) b"
  by (simp add: nearest_loop_def)

lemma nearest_loop_Nil: "nearest_loop p [] = (PosInf, None, None)"
  by (simp add: nearest_loop_def)

lemma first_nearest_unique:
  assumes "first_nearest p bs i" and "first_nearest p bs j"
  shows "i = j"
proof (rule ccontr)
  assume "i \<noteq> j"
  then consider "i < j" | "j < i" by linarith
  then show False
  proof cases
    case 1
    with assms have "boundary_distance p (bs ! j) < boundary_distance p (bs ! i)"
      and "boundary_distance p (bs ! i) \<le> boundary_distance p (bs ! j)"
      by (auto simp: first_nearest_def)
    then show False by simp
  next
    case 2
    with assms have "boundary_distance p (bs ! i) < boundary_distance p (bs ! j)"
      and "boundary_distance p (bs ! j) \<le> boundary_distance p (bs ! i)"
      by (auto simp: first_nearest_def)
    then show False by simp
  qed
qed

lemma nearest_loop_first:
  "bs \<noteq> [] \<Longrightarrow>
   \<exists>i. first_nearest p bs i \<and>
       nearest_loop p bs =
         (Fin (boundary_distance p (bs ! i)), Some (bs ! i),
          Some (nearest_point (boundary_geometry (bs ! i)) p))"
proof (induction bs rule: rev_induct)
  case Nil
  then show ?case by simp
next
  case (snoc b bs)
  show ?case
  proof (cases "bs = []")
    case True
    have "first_nearest p [b] 0" by (simp add: first_nearest_def)
    moreover have "nearest_loop p [b] =
        (Fin (boundary_distance p b), Some b, Some (nearest_point (boundary_geometry b) p))"
      by (simp add: nearest_loop_def nearest_step_def boundary_distance_def Let_def)
    ultimately show ?thesis using True by fastforce
  next
    case False
    with snoc.IH obtain i where i: "first_nearest p bs i"
      and st: "nearest_loop p bs =
         (Fin (boundary_distance p (bs ! i)), Some (bs ! i),
          Some (nearest_point (boundary_geometry (bs ! i)) p))"
      by blast
    from i have ilt: "i < length bs" by (simp add: first_nearest_def)
    show ?thesis
    proof (cases "boundary_distance p b < boundary_distance p (bs ! i)")
      case True
      have "first_nearest p (bs @ [b]) (length bs)"
        unfolding first_nearest_def
      proof (intro conjI allI impI)
        show "length bs < length (bs @ [b])" by simp
      next
        fix j assume "j < length (bs @ [b])"
        then consider "j < length bs" | "j = length bs" by fastforce
        then show "boundary_distance p ((bs @ [b]) ! length bs) \<le> boundary_distance p ((bs @ [b]) ! j)"
        proof cases
          case 1
          with i have "boundary_distance p (bs ! i) \<le> boundary_distance p (bs ! j)"
            by (simp add: first_nearest_def)
          with True 1 show ?thesis by (simp add: nth_append)
        next
          case 2
          then show ?thesis by simp
        qed
      next
        fix j assume j: "j < length bs"
        with i have "boundary_distance p (bs ! i) \<le> boundary_distance p (bs ! j)"
          by (simp add: first_nearest_def)
        with True j show "boundary_distance p ((bs @ [b]) ! length bs) < boundary_distance p ((bs @ [b]) ! j)"
          by (simp add: nth_append)
      qed
      moreover have "nearest_loop p (bs @ [b]) =
          (Fin (boundary_distance p b), Some b, Some (nearest_point (boundary_geometry b) p))"
        using True by (simp add: nearest_loop_snoc st nearest_step_def boundary_distance_def Let_def)
      ultimately show ?thesis by (intro exI [of _ "length bs"]) simp
    next
      case nlt: False
      have "first_nearest p (bs @ [b]) i"
        unfolding first_nearest_def
      proof (intro conjI allI impI)
        show "i < length (bs @ [b])" using ilt by simp
      next
        fix j assume "j < length (bs @ [b])"
        then consider "j < length bs" | "j = length bs" by fastforce
        then show "boundary_distance p ((bs @ [b]) ! i) \<le> boundary_distance p ((bs @ [b]) ! j)"
        proof cases
          case 1
          with i ilt show ?thesis by (simp add: first_nearest_def nth_append)
        next
          case 2
          with nlt ilt show ?thesis by (simp add: nth_append)
        qed
      next
        fix j assume j: "j < i"
        with i ilt show "boundary_distance p ((bs @ [b]) ! i) < boundary_distance p ((bs @ [b]) ! j)"
          by (simp add: first_nearest_def nth_append)
      qed
      moreover have "nearest_loop p (bs @ [b]) = nearest_loop p bs"
        using nlt by (simp add: nearest_loop_snoc st nearest_step_def boundary_distance_def Let_def)
      ultimately show ?thesis using st ilt by (intro exI [of _ i]) (simp add: nth_append)
    qed
  qed
qed

lemma breach_step_PosInf: "breach_step p PosInf b = Fin (boundary_distance p b)"
  by (simp add: breach_step_def boundary_distance_def Let_def)

lemma breach_step_Fin: "breach_step p (Fin m) b = Fin (min m (boundary_distance p b))"
  by (simp add: breach_step_def boundary_distance_def Let_def min_def)

lemma Min_insert_min:
  "finite S \<Longrightarrow> Min (insert (min (m::real) d) S) = Min (insert m (insert d S))"
  by (cases "S = {}") (simp_all add: min.assoc)

lemma breach_fold:
  "foldl (breach_step p) acc bs =
     (case acc of
        PosInf \<Rightarrow> if bs = [] then PosInf else Fin (Min ((boundary_distance p) ` set bs))
      | Fin m \<Rightarrow> Fin (Min (insert m ((boundary_distance p) ` set bs))))"
proof (induction bs arbitrary: acc)
  case Nil
  then show ?case by (simp split: float_inf.splits)
next
  case (Cons b bs)
  show ?case
  proof (cases acc)
    case PosInf
    then show ?thesis
      by (simp add: Cons.IH breach_step_PosInf)
  next
    case (Fin m)
    then show ?thesis
      by (simp add: Cons.IH breach_step_Fin Min_insert_min)
  qed
qed


lemma distance_sym: "distance a b = distance b a"
  by (simp add: distance_def power2_commute)

lemma distance_eq_0: "distance a b = 0 \<longleftrightarrow> a = b"
  by (auto simp: distance_def sum_power2_eq_zero_iff prod_eq_iff)

lemma distance_nonneg: "0 \<le> distance a b"
  by (simp add: distance_def)

lemma distance_toward:
  assumes "a \<noteq> b" and "0 \<le> d"
  shows "distance a (toward a b d) = d"
proof -
  let ?l = "distance a b"
  have lpos: "0 < ?l" using assms(1) distance_eq_0 [of a b] distance_nonneg [of a b] by linarith
  have sq: "?l\<^sup>2 = (fst a - fst b)\<^sup>2 + (snd a - snd b)\<^sup>2"
    by (simp add: distance_def)
  have x: "fst a - fst (toward a b d) = (d / ?l) * (fst a - fst b)"
    by (simp add: toward_def algebra_simps diff_divide_distrib)
  have y: "snd a - snd (toward a b d) = (d / ?l) * (snd a - snd b)"
    by (simp add: toward_def algebra_simps diff_divide_distrib)
  have "(fst a - fst (toward a b d))\<^sup>2 + (snd a - snd (toward a b d))\<^sup>2
        = (d / ?l)\<^sup>2 * ((fst a - fst b)\<^sup>2 + (snd a - snd b)\<^sup>2)"
    by (simp only: x y power_mult_distrib distrib_left)
  also have "\<dots> = (d / ?l)\<^sup>2 * ?l\<^sup>2" by (simp only: sq)
  also have "\<dots> = d\<^sup>2" using lpos by (simp add: power_divide)
  finally have "distance a (toward a b d) = sqrt (d\<^sup>2)"
    by (simp add: distance_def)
  then show ?thesis using assms(2) by simp
qed

lemma interpolate_toward:
  assumes "0 \<le> d" and "d < distance a b"
  shows "interpolate a b d = toward a b d"
  using assms by (simp add: interpolate_def line_length_def toward_def Let_def)

lemma gnsp_inside:
  "contains_loop (boundaries gm) (lon, lat) \<Longrightarrow> get_nearest_safe_point gm lat lon = (lat, lon)"
  by (simp add: get_nearest_safe_point_def)

lemma gnsp_empty:
  "boundaries gm = [] \<Longrightarrow> get_nearest_safe_point gm lat lon = (lat, lon)"
  by (simp add: get_nearest_safe_point_def nearest_loop_def)

lemma gnsp_outside:
  assumes out: "\<not> contains_loop (boundaries gm) (lon, lat)"
    and i: "first_nearest (lon, lat) (boundaries gm) i"
  shows "get_nearest_safe_point gm lat lon =
     (let n = nearest_point (boundary_geometry (boundaries gm ! i)) (lon, lat) in
      case boundaries gm ! i of
        Polygon_boundary g nm \<Rightarrow> (snd n, fst n)
      | Circle_boundary g nm c r \<Rightarrow>
          if line_length n (snd c, fst c) > meters_to_degrees (buffer_distance gm)
          then prod.swap (interpolate n (snd c, fst c) (meters_to_degrees (buffer_distance gm)))
          else (snd n, fst n))"
proof -
  from i have ne: "boundaries gm \<noteq> []" by (auto simp: first_nearest_def)
  from nearest_loop_first [OF ne, of "(lon, lat)"] obtain k where
    k: "first_nearest (lon, lat) (boundaries gm) k" and
    st: "nearest_loop (lon, lat) (boundaries gm) =
         (Fin (boundary_distance (lon, lat) (boundaries gm ! k)), Some (boundaries gm ! k),
          Some (nearest_point (boundary_geometry (boundaries gm ! k)) (lon, lat)))"
    by blast
  from first_nearest_unique [OF k i] have "k = i" .
  with st out show ?thesis
    by (cases "boundaries gm ! i") (simp_all add: get_nearest_safe_point_def Let_def prod.swap_def)
qed

section \<open>Examples along an axis\<close>

lemma distance_axis: "distance (x, y) (x', y) = \<bar>x - x'\<bar>"
  by (simp add: distance_def)

lemma disc_nearest_axis: "nearest_point (disc (0, 0) 1) (2, 0) = (1, 0)"
  by (simp add: disc_def distance_axis)

lemma circle_gm_loop:
  "nearest_loop (2, 0) (boundaries (circle_gm k)) =
     (Fin 1, Some (Circle_boundary (disc (0, 0) 1) ''Circle_0'' (0, 0) 111111), Some (1, 0))"
  by (simp add: circle_gm_def nearest_loop_def nearest_step_def disc_nearest_axis distance_axis)

lemma circle_gm_outside: "\<not> contains_loop (boundaries (circle_gm k)) (2, 0)"
  by (simp add: circle_gm_def disc_def distance_axis)

lemma circle_gm_first: "first_nearest (2, 0) (boundaries (circle_gm k)) 0"
  by (simp add: first_nearest_def circle_gm_def)

section \<open>Claims about the geofence\<close>

text \<open>
  C2 (union semantics). For a position with no altitude, or with an altitude within
  \<open>[min_altitude, max_altitude]\<close>, \<open>is_point_inside\<close> returns true if and only if some
  configured boundary's geometry contains the point.
\<close>

theorem is_point_inside_union:
  assumes "altitude = None \<or>
     (\<exists>a. altitude = Some a \<and> min_altitude gm \<le> a \<and> a \<le> max_altitude gm)"
  shows "is_point_inside gm lat lon altitude \<longleftrightarrow>
     (\<exists>b \<in> set (boundaries gm). contains (boundary_geometry b) (lon, lat))"
  using assms by (auto simp: is_point_inside_def contains_loop_iff)

theorem is_point_inside_union_witness:
  "is_point_inside union_gm (1/2) (1/2) None \<and>
   contains (rectangle 0 0 1 1) (1/2, 1/2) \<and> \<not> contains (rectangle 2 0 3 1) (1/2, 1/2) \<and>
   \<not> is_point_inside union_gm (1/2) 5 None"
proof -
  have a: "is_point_inside union_gm (1/2) (1/2) None"
    by (subst is_point_inside_union) (simp_all add: union_gm_def rectangle_def)
  have b: "\<not> is_point_inside union_gm (1/2) 5 None"
    by (subst is_point_inside_union) (simp_all add: union_gm_def rectangle_def)
  show ?thesis using a b by (simp add: rectangle_def)
qed

text \<open>
  C3 (altitude fails closed). If the altitude is given and lies outside
  \<open>[min_altitude, max_altitude]\<close>, \<open>is_point_inside\<close> returns false whatever the
  boundaries contain; and with an altitude it returns true exactly when the altitude is
  within the limits and the point without altitude is inside: the altitude check comes in
  addition to containment.
\<close>

theorem is_point_inside_altitude:
  "(max_altitude gm < a \<or> a < min_altitude gm \<longrightarrow> \<not> is_point_inside gm lat lon (Some a)) \<and>
   (is_point_inside gm lat lon (Some a) \<longleftrightarrow>
      min_altitude gm \<le> a \<and> a \<le> max_altitude gm \<and> is_point_inside gm lat lon None)"
  by (auto simp: is_point_inside_def)

theorem is_point_inside_altitude_witness:
  "max_altitude square_gm < 50 \<and> is_point_inside square_gm (1/2) (1/2) None \<and>
   \<not> is_point_inside square_gm (1/2) (1/2) (Some 50) \<and>
   is_point_inside square_gm (1/2) (1/2) (Some 10) \<and>
   \<not> is_point_inside square_gm (1/2) 5 (Some 10)"
proof -
  have m: "max_altitude square_gm < 50" by (simp add: square_gm_def)
  have i: "is_point_inside square_gm (1/2) (1/2) None"
    by (simp add: is_point_inside_def square_gm_def rectangle_def)
  have o: "\<not> is_point_inside square_gm (1/2) 5 None"
    by (simp add: is_point_inside_def square_gm_def rectangle_def)
  have l: "min_altitude square_gm \<le> 10 \<and> 10 \<le> max_altitude square_gm" by (simp add: square_gm_def)
  from is_point_inside_altitude [of square_gm 50 "1/2" "1/2"] m have "\<not> is_point_inside square_gm (1/2) (1/2) (Some 50)"
    by blast
  moreover from is_point_inside_altitude [of square_gm 10 "1/2" "1/2"] i l have "is_point_inside square_gm (1/2) (1/2) (Some 10)"
    by blast
  moreover from is_point_inside_altitude [of square_gm 10 "1/2" 5] o have "\<not> is_point_inside square_gm (1/2) 5 (Some 10)"
    by blast
  ultimately show ?thesis using m i by blast
qed

text \<open>
  C10 (no boundaries). With an empty boundary list, \<open>is_point_inside\<close> is false for
  every position, \<open>get_nearest_safe_point\<close> returns its input, and so the point it
  returns is itself not inside.
\<close>

theorem no_boundaries:
  assumes "boundaries gm = []"
  shows "\<not> is_point_inside gm lat lon altitude \<and>
         get_nearest_safe_point gm lat lon = (lat, lon) \<and>
         \<not> is_point_inside gm (fst (get_nearest_safe_point gm lat lon))
                              (snd (get_nearest_safe_point gm lat lon)) None"
  using assms by (auto simp: is_point_inside_def gnsp_empty split: option.splits)

theorem no_boundaries_witness:
  "boundaries empty_gm = [] \<and> \<not> is_point_inside empty_gm 3 4 None \<and>
   get_nearest_safe_point empty_gm 3 4 = (3, 4) \<and>
   \<not> is_point_inside empty_gm (fst (get_nearest_safe_point empty_gm 3 4))
                              (snd (get_nearest_safe_point empty_gm 3 4)) None"
proof -
  have e: "boundaries empty_gm = []" by (simp add: empty_gm_def)
  show ?thesis using e no_boundaries [OF e, of 3 4 None] by blast
qed

text \<open>
  C1 (the corrected point is inside), at a failing input. The geofence is the single
  polygon with corners (0,0), (1,0), (1,1), (0,1); the position is latitude 1/2,
  longitude 2. \<open>get_nearest_safe_point\<close> returns the point (1/2, 1) of the polygon's
  ring, and \<open>is_point_inside\<close> is false there.
\<close>

theorem polygon_safe_point_not_inside:
  "boundaries square_gm \<noteq> [] \<and>
   get_nearest_safe_point square_gm (1/2) 2 = (1/2, 1) \<and>
   \<not> is_point_inside square_gm (1/2) 1 None"
  by (simp add: square_gm_def get_nearest_safe_point_def nearest_loop_def nearest_step_def
        rectangle_def is_point_inside_def Let_def)

text \<open>
  C6 (breach distance). \<open>calculate_breach_distance\<close> is 0 if some boundary contains the
  point; otherwise, with at least one boundary, it is the minimum over the boundaries of
  the distance from the point to the boundary's geometry, times 111111; with no boundary
  at all the minimum is the initial \<open>float('inf')\<close>.
\<close>

theorem calculate_breach_distance_min:
  "((\<exists>b \<in> set (boundaries gm). contains (boundary_geometry b) (lon, lat)) \<longrightarrow>
      calculate_breach_distance gm lat lon = Fin 0) \<and>
   (\<not> (\<exists>b \<in> set (boundaries gm). contains (boundary_geometry b) (lon, lat)) \<and>
    boundaries gm \<noteq> [] \<longrightarrow>
      calculate_breach_distance gm lat lon =
        Fin (Min (boundary_distance (lon, lat) ` set (boundaries gm)) * 111111)) \<and>
   (boundaries gm = [] \<longrightarrow> calculate_breach_distance gm lat lon = PosInf)"
  by (simp add: calculate_breach_distance_def contains_loop_iff breach_fold)

theorem calculate_breach_distance_min_witness:
  "calculate_breach_distance union_gm (1/2) (1/2) = Fin 0 \<and>
   calculate_breach_distance union_gm (1/2) 5 = Fin (2 * 111111) \<and>
   calculate_breach_distance empty_gm 3 4 = PosInf"
proof -
  have d: "boundary_distance (5, 1/2) ` set (boundaries union_gm) = {4, 2}"
    by (simp add: union_gm_def boundary_distance_def rectangle_def distance_axis)
  have a: "\<exists>b \<in> set (boundaries union_gm). contains (boundary_geometry b) (1/2, 1/2)"
    by (simp add: union_gm_def rectangle_def)
  have b: "\<not> (\<exists>b \<in> set (boundaries union_gm). contains (boundary_geometry b) (5, 1/2)) \<and>
      boundaries union_gm \<noteq> []"
    by (simp add: union_gm_def rectangle_def)
  have e: "boundaries empty_gm = []" by (simp add: empty_gm_def)
  from calculate_breach_distance_min [of union_gm "1/2" "1/2"] a
  have "calculate_breach_distance union_gm (1/2) (1/2) = Fin 0" by blast
  moreover from calculate_breach_distance_min [of union_gm 5 "1/2"] b
  have "calculate_breach_distance union_gm (1/2) 5 =
      Fin (Min (boundary_distance (5, 1/2) ` set (boundaries union_gm)) * 111111)" by blast
  then have "calculate_breach_distance union_gm (1/2) 5 = Fin (2 * 111111)"
    by (simp add: d)
  moreover from calculate_breach_distance_min [of empty_gm 4 3] e
  have "calculate_breach_distance empty_gm 3 4 = PosInf" by blast
  ultimately show ?thesis by blast
qed

text \<open>
  C7 as stated fails where the nudge would land exactly on the center. The circle has
  radius one degree and the buffer distance is 111111 m, one degree too. From longitude
  2 on the equator the closest boundary point is (1, 0), at distance 1 from the center,
  so a nudge by one degree reaches the center (0, 0) without overshooting it; the code
  compares with a strict \<open>line.length > buffer_degrees\<close> and returns the boundary point.
\<close>

theorem nudge_reaching_center_counterexample:
  "\<not> contains_loop (boundaries (circle_gm 111111)) (2, 0) \<and>
   first_nearest (2, 0) (boundaries (circle_gm 111111)) 0 \<and>
   nearest_point (disc (0, 0) 1) (2, 0) = (1, 0) \<and>
   prod.swap (nudge_as_stated (meters_to_degrees (buffer_distance (circle_gm 111111))) (1, 0) (0, 0))
     = (0, 0) \<and>
   get_nearest_safe_point (circle_gm 111111) 0 2 = (0, 1)"
proof -
  have "get_nearest_safe_point (circle_gm 111111) 0 2 = (0, 1)"
    using circle_gm_outside [of 111111] circle_gm_loop [of 111111]
    by (simp add: get_nearest_safe_point_def line_length_def distance_axis meters_to_degrees_def
          circle_gm_def)
  moreover have "prod.swap (nudge_as_stated (meters_to_degrees (buffer_distance (circle_gm 111111)))
      (1, 0) (0, 0)) = (0, 0)"
    by (simp add: nudge_as_stated_def toward_def distance_axis meters_to_degrees_def circle_gm_def)
  ultimately show ?thesis
    using circle_gm_outside circle_gm_first disc_nearest_axis by blast
qed

text \<open>
  C7, amended. If some boundary contains \<open>p\<close>, \<open>get_nearest_safe_point\<close> returns
  \<open>p\<close>; with no boundary it returns \<open>p\<close> too. Otherwise there is exactly one first
  boundary at minimum distance from \<open>p\<close>, and with \<open>n\<close> the point of its geometry
  nearest to \<open>p\<close> and \<open>d\<close> the buffer distance in degrees: for a polygon the result is
  \<open>n\<close>; for a circle whose center is at distance at most \<open>d\<close> from \<open>n\<close> (the nudge
  would reach or overshoot the center) the result is \<open>n\<close>; for a circle whose center is
  farther than \<open>d \<ge> 0\<close> the result is the point at distance \<open>d\<close> from \<open>n\<close> toward the
  center.
\<close>

theorem get_nearest_safe_point_cases:
  "((\<exists>b \<in> set (boundaries gm). contains (boundary_geometry b) (lon, lat)) \<longrightarrow>
      get_nearest_safe_point gm lat lon = (lat, lon)) \<and>
   (boundaries gm = [] \<longrightarrow> get_nearest_safe_point gm lat lon = (lat, lon)) \<and>
   (\<not> (\<exists>b \<in> set (boundaries gm). contains (boundary_geometry b) (lon, lat)) \<and>
    boundaries gm \<noteq> [] \<longrightarrow>
      (\<exists>!i. first_nearest (lon, lat) (boundaries gm) i) \<and>
      (\<forall>i. first_nearest (lon, lat) (boundaries gm) i \<longrightarrow>
         (let n = nearest_point (boundary_geometry (boundaries gm ! i)) (lon, lat);
              d = buffer_distance gm / 111111
          in case boundaries gm ! i of
               Polygon_boundary g nm \<Rightarrow> get_nearest_safe_point gm lat lon = (snd n, fst n)
             | Circle_boundary g nm c r \<Rightarrow>
                 (distance n (snd c, fst c) \<le> d \<longrightarrow>
                    get_nearest_safe_point gm lat lon = (snd n, fst n)) \<and>
                 (0 \<le> d \<and> d < distance n (snd c, fst c) \<longrightarrow>
                    get_nearest_safe_point gm lat lon = prod.swap (toward n (snd c, fst c) d) \<and>
                    distance n (toward n (snd c, fst c) d) = d))))"
proof (intro conjI impI)
  assume "\<exists>b \<in> set (boundaries gm). contains (boundary_geometry b) (lon, lat)"
  then show "get_nearest_safe_point gm lat lon = (lat, lon)"
    by (simp add: gnsp_inside contains_loop_iff)
next
  assume "boundaries gm = []"
  then show "get_nearest_safe_point gm lat lon = (lat, lon)" by (rule gnsp_empty)
next
  assume a: "\<not> (\<exists>b \<in> set (boundaries gm). contains (boundary_geometry b) (lon, lat)) \<and>
    boundaries gm \<noteq> []"
  then obtain k where "first_nearest (lon, lat) (boundaries gm) k"
    using nearest_loop_first [of "boundaries gm" "(lon, lat)"] by blast
  then show "\<exists>!i. first_nearest (lon, lat) (boundaries gm) i"
    using first_nearest_unique by blast
next
  assume a: "\<not> (\<exists>b \<in> set (boundaries gm). contains (boundary_geometry b) (lon, lat)) \<and>
    boundaries gm \<noteq> []"
  then have out: "\<not> contains_loop (boundaries gm) (lon, lat)" by (simp add: contains_loop_iff)
  show "\<forall>i. first_nearest (lon, lat) (boundaries gm) i \<longrightarrow>
         (let n = nearest_point (boundary_geometry (boundaries gm ! i)) (lon, lat);
              d = buffer_distance gm / 111111
          in case boundaries gm ! i of
               Polygon_boundary g nm \<Rightarrow> get_nearest_safe_point gm lat lon = (snd n, fst n)
             | Circle_boundary g nm c r \<Rightarrow>
                 (distance n (snd c, fst c) \<le> d \<longrightarrow>
                    get_nearest_safe_point gm lat lon = (snd n, fst n)) \<and>
                 (0 \<le> d \<and> d < distance n (snd c, fst c) \<longrightarrow>
                    get_nearest_safe_point gm lat lon = prod.swap (toward n (snd c, fst c) d) \<and>
                    distance n (toward n (snd c, fst c) d) = d))"
  proof (intro allI impI)
    fix i assume i: "first_nearest (lon, lat) (boundaries gm) i"
    show "let n = nearest_point (boundary_geometry (boundaries gm ! i)) (lon, lat);
              d = buffer_distance gm / 111111
          in case boundaries gm ! i of
               Polygon_boundary g nm \<Rightarrow> get_nearest_safe_point gm lat lon = (snd n, fst n)
             | Circle_boundary g nm c r \<Rightarrow>
                 (distance n (snd c, fst c) \<le> d \<longrightarrow>
                    get_nearest_safe_point gm lat lon = (snd n, fst n)) \<and>
                 (0 \<le> d \<and> d < distance n (snd c, fst c) \<longrightarrow>
                    get_nearest_safe_point gm lat lon = prod.swap (toward n (snd c, fst c) d) \<and>
                    distance n (toward n (snd c, fst c) d) = d)"
    proof (cases "boundaries gm ! i")
      case (Polygon_boundary g nm)
      then show ?thesis using gnsp_outside [OF out i] by (simp add: Let_def)
    next
      case cb: (Circle_boundary g nm c r)
      let ?n = "nearest_point g (lon, lat)"
      let ?c = "(snd c, fst c)"
      let ?d = "buffer_distance gm / 111111"
      have res: "get_nearest_safe_point gm lat lon =
          (if ?d < distance ?n ?c then prod.swap (interpolate ?n ?c ?d) else (snd ?n, fst ?n))"
        using gnsp_outside [OF out i] cb
        by (simp add: Let_def line_length_def meters_to_degrees_def)
      have far: "get_nearest_safe_point gm lat lon = prod.swap (toward ?n ?c ?d) \<and>
          distance ?n (toward ?n ?c ?d) = ?d" if "0 \<le> ?d" and "?d < distance ?n ?c"
      proof -
        from that have "?n \<noteq> ?c" using distance_eq_0 [of ?n ?c] by auto
        with that show ?thesis
          by (simp only: res interpolate_toward distance_toward if_True simp_thms)
      qed
      have near: "get_nearest_safe_point gm lat lon = (snd ?n, fst ?n)" if "distance ?n ?c \<le> ?d"
        using that res by simp
      show ?thesis using far near cb by (simp add: Let_def)
    qed
  qed
qed


theorem get_nearest_safe_point_cases_witness:
  "\<not> (\<exists>b \<in> set (boundaries (circle_gm 5)). contains (boundary_geometry b) (2, 0)) \<and>
   boundaries (circle_gm 5) \<noteq> [] \<and>
   first_nearest (2, 0) (boundaries (circle_gm 5)) 0 \<and>
   get_nearest_safe_point (circle_gm 5) 0 2 = (0, 1 - 5 / 111111)"
proof -
  have out: "\<not> (\<exists>b \<in> set (boundaries (circle_gm 5)). contains (boundary_geometry b) (2, 0)) \<and>
      boundaries (circle_gm 5) \<noteq> []"
    using circle_gm_outside [of 5] by (simp add: contains_loop_iff circle_gm_def)
  have b: "boundaries (circle_gm 5) ! 0 =
      Circle_boundary (disc (0, 0) 1) ''Circle_0'' (0, 0) 111111"
    by (simp add: circle_gm_def)
  have bd: "buffer_distance (circle_gm 5) = 5" by (simp add: circle_gm_def)
  from get_nearest_safe_point_cases [of "circle_gm 5" 2 0] out circle_gm_first [of 5]
  have "let n = nearest_point (boundary_geometry (boundaries (circle_gm 5) ! 0)) (2, 0);
            d = buffer_distance (circle_gm 5) / 111111
        in case boundaries (circle_gm 5) ! 0 of
             Polygon_boundary g nm \<Rightarrow> get_nearest_safe_point (circle_gm 5) 0 2 = (snd n, fst n)
           | Circle_boundary g nm c r \<Rightarrow>
               (distance n (snd c, fst c) \<le> d \<longrightarrow>
                  get_nearest_safe_point (circle_gm 5) 0 2 = (snd n, fst n)) \<and>
               (0 \<le> d \<and> d < distance n (snd c, fst c) \<longrightarrow>
                  get_nearest_safe_point (circle_gm 5) 0 2 = prod.swap (toward n (snd c, fst c) d) \<and>
                  distance n (toward n (snd c, fst c) d) = d)"
    by blast
  then have "get_nearest_safe_point (circle_gm 5) 0 2 = (0, 1 - 5 / 111111)"
    by (simp add: b bd disc_nearest_axis distance_axis toward_def)
  with out circle_gm_first [of 5] show ?thesis by blast
qed


section \<open>What the parts of a monitor iteration do\<close>

lemma emit_fields:
  "status (emit e c) = status c" "vehicle (emit e c) = vehicle c"
  "simulation_mode (emit e c) = simulation_mode c"
  "geofence_manager (emit e c) = geofence_manager c"
  "trace (emit e c) = trace c @ [e]"
  "critical_battery_level (emit e c) = critical_battery_level c"
  "low_battery_level (emit e c) = low_battery_level c"
  "return_airspeed (emit e c) = return_airspeed c"
  "drone_max_altitude (emit e c) = drone_max_altitude c"
  "current_mission (emit e c) = current_mission c"
  "current_waypoint_index (emit e c) = current_waypoint_index c"
  by (simp_all add: emit_def)


lemma rtl_sent_emit: "rtl_sent (emit e c) = rtl_sent c"
  by (simp add: rtl_sent_def emit_def)










lemma send_goto_status: "status (snd (send_goto c v lat lon alt)) = status c"
  by (simp add: send_goto_def Let_def emit_fields)

lemma send_goto_vehicle:
  "vehicle (snd (send_goto c v lat lon alt)) =
     (if fst (send_goto c v lat lon alt) = Inr True
      then Some (v\<lparr>sent := sent v @ [SimpleGoto lat lon alt]\<rparr>) else vehicle c)"
  by (simp add: send_goto_def Let_def emit_fields)



lemma geofence_target_fields:
  "status (snd (geofence_target c lat lon)) = status c"
  "vehicle (snd (geofence_target c lat lon)) = vehicle c"
  "rtl_sent (snd (geofence_target c lat lon)) = rtl_sent c"
  by (simp_all add: geofence_target_def emit_fields rtl_sent_emit split: option.splits)


lemma geofence_target_fst:
  "fst (geofence_target c lat lon) =
     (case geofence_manager c of
        None \<Rightarrow> (lat, lon)
      | Some gm \<Rightarrow> if is_point_inside gm lat lon None then (lat, lon)
                   else get_nearest_safe_point gm lat lon)"
  by (simp add: geofence_target_def split: option.splits)

lemma move_status: "status (snd (move_to_coordinates c loc altitude)) = status c"
  by (simp add: move_to_coordinates_def emit_fields send_goto_status geofence_target_fields
        case_prod_beta split: option.splits sum.splits)















lemma same_setup_refl: "same_setup c c"
  by (simp add: same_setup_def)

























































section \<open>Claims about the controller\<close>








text \<open>
  C4 as stated fails in simulation mode: a controller created with
  \<open>simulation_mode=True\<close> is \<open>DISCONNECTED\<close>, and \<open>move_to_coordinates\<close> returns
  True for it.
\<close>

theorem simulated_move_counterexample:
  "simulation_mode (controller True DISCONNECTED None) \<and>
   status (controller True DISCONNECTED None) = DISCONNECTED \<and>
   fst (move_to_coordinates (controller True DISCONNECTED None)
          \<lparr>latitude = Some (1/2), longitude = Some 2\<rparr> None) = Inr True"
  by (simp add: move_to_coordinates_def controller_def)

text \<open>
  C4, amended. \<open>move_to_coordinates\<close> never changes the status. Outside simulation
  mode it is legal only while \<open>FLYING\<close>: in any other status it returns False and
  leaves the vehicle untouched; while \<open>FLYING\<close>, with a geofence manager and both
  coordinates given, the only thing it can send is one \<open>simple_goto\<close> whose target is
  the requested point if \<open>is_point_inside\<close> holds for it, and the nearest safe point
  otherwise. In simulation mode it returns True in every status and sends nothing.
\<close>

theorem move_to_coordinates_gate:
  "status (snd (move_to_coordinates c loc altitude)) = status c \<and>
   (simulation_mode c \<longrightarrow>
      fst (move_to_coordinates c loc altitude) = Inr True \<and>
      vehicle (snd (move_to_coordinates c loc altitude)) = vehicle c) \<and>
   (\<not> simulation_mode c \<and> status c \<noteq> FLYING \<longrightarrow>
      fst (move_to_coordinates c loc altitude) = Inr False \<and>
      vehicle (snd (move_to_coordinates c loc altitude)) = vehicle c) \<and>
   (\<not> simulation_mode c \<and> status c = FLYING \<and> vehicle c = Some v \<and>
    geofence_manager c = Some gm \<and> latitude loc = Some lat \<and> longitude loc = Some lon \<longrightarrow>
      (let target = (if is_point_inside gm lat lon None then (lat, lon)
                     else get_nearest_safe_point gm lat lon)
       in (fst (move_to_coordinates c loc altitude) = Inr True \<longrightarrow>
             (\<exists>alt. vehicle (snd (move_to_coordinates c loc altitude)) =
                Some (v\<lparr>sent := sent v @ [SimpleGoto (fst target) (snd target) alt]\<rparr>))) \<and>
          (fst (move_to_coordinates c loc altitude) \<noteq> Inr True \<longrightarrow>
             vehicle (snd (move_to_coordinates c loc altitude)) = vehicle c)))"
proof (intro conjI impI)
  show "status (snd (move_to_coordinates c loc altitude)) = status c" by (rule move_status)
next
  assume "simulation_mode c"
  then show "fst (move_to_coordinates c loc altitude) = Inr True"
    and "vehicle (snd (move_to_coordinates c loc altitude)) = vehicle c"
    by (simp_all add: move_to_coordinates_def emit_fields)
next
  assume "\<not> simulation_mode c \<and> status c \<noteq> FLYING"
  then show "fst (move_to_coordinates c loc altitude) = Inr False"
    and "vehicle (snd (move_to_coordinates c loc altitude)) = vehicle c"
    by (simp_all add: move_to_coordinates_def emit_fields split: option.splits)
next
  assume a: "\<not> simulation_mode c \<and> status c = FLYING \<and> vehicle c = Some v \<and>
    geofence_manager c = Some gm \<and> latitude loc = Some lat \<and> longitude loc = Some lon"
  let ?t = "if is_point_inside gm lat lon None then (lat, lon) else get_nearest_safe_point gm lat lon"
  have tg: "fst (geofence_target c lat lon) = ?t"
    using a by (simp add: geofence_target_fst)
  show "let target = ?t
       in (fst (move_to_coordinates c loc altitude) = Inr True \<longrightarrow>
             (\<exists>alt. vehicle (snd (move_to_coordinates c loc altitude)) =
                Some (v\<lparr>sent := sent v @ [SimpleGoto (fst target) (snd target) alt]\<rparr>))) \<and>
          (fst (move_to_coordinates c loc altitude) \<noteq> Inr True \<longrightarrow>
             vehicle (snd (move_to_coordinates c loc altitude)) = vehicle c)"
    unfolding Let_def tg [symmetric]
    using a
    by (auto simp: move_to_coordinates_def case_prod_beta send_goto_vehicle emit_fields
          geofence_target_fields split: option.splits sum.splits)
qed

theorem move_to_coordinates_gate_witness:
  "\<not> is_point_inside square_gm (1/2) 2 None \<and>
   fst (move_to_coordinates (controller False DISCONNECTED None)
          \<lparr>latitude = Some (1/2), longitude = Some 2\<rparr> None) = Inr False \<and>
   fst (move_to_coordinates (controller False FLYING (Some (link_ok 75)))
          \<lparr>latitude = Some (1/2), longitude = Some 2\<rparr> None) = Inr True \<and>
   vehicle (snd (move_to_coordinates (controller False FLYING (Some (link_ok 75)))
          \<lparr>latitude = Some (1/2), longitude = Some 2\<rparr> None)) =
     Some ((link_ok 75)\<lparr>sent := [SimpleGoto (1/2) 1 10]\<rparr>)"
proof -
  let ?loc = "\<lparr>latitude = Some (1/2), longitude = Some 2\<rparr>"
  let ?d = "controller False DISCONNECTED None"
  let ?f = "controller False FLYING (Some (link_ok 75))"
  have out: "\<not> is_point_inside square_gm (1/2) 2 None"
    by (simp add: is_point_inside_def square_gm_def rectangle_def)
  have sp: "get_nearest_safe_point square_gm (1/2) 2 = (1/2, 1)"
    by (simp add: square_gm_def get_nearest_safe_point_def nearest_loop_def nearest_step_def
          rectangle_def Let_def)
  have d: "\<not> simulation_mode ?d \<and> status ?d \<noteq> FLYING" by (simp add: controller_def)
  from move_to_coordinates_gate [of ?d ?loc None] d
  have r1: "fst (move_to_coordinates ?d ?loc None) = Inr False" by blast
  have f: "\<not> simulation_mode ?f \<and> status ?f = FLYING \<and> vehicle ?f = Some (link_ok 75) \<and>
      geofence_manager ?f = Some square_gm \<and> latitude ?loc = Some (1/2) \<and> longitude ?loc = Some 2"
    by (simp add: controller_def)
  have ok: "fst (move_to_coordinates ?f ?loc None) = Inr True"
    using out sp
    by (simp add: move_to_coordinates_def controller_def geofence_target_def link_ok_def
          send_goto_def Let_def emit_def)
  from move_to_coordinates_gate [of ?f ?loc None "link_ok 75" square_gm "1/2" 2] f ok out sp
  obtain alt where alt: "vehicle (snd (move_to_coordinates ?f ?loc None)) =
      Some ((link_ok 75)\<lparr>sent := sent (link_ok 75) @ [SimpleGoto (1/2) 1 alt]\<rparr>)"
    by (auto simp: Let_def)
  have "vehicle (snd (move_to_coordinates ?f ?loc None)) =
      Some ((link_ok 75)\<lparr>sent := [SimpleGoto (1/2) 1 10]\<rparr>)"
    using out sp
    by (simp add: move_to_coordinates_def controller_def geofence_target_def link_ok_def
          send_goto_def Let_def emit_def)
  with out r1 ok show ?thesis by blast
qed

end
